theory Spec2Isabelle
  imports Complex_Main
begin

section \<open>Data model of \<open>monitor_dc_temp.py\<close>\<close>

text \<open>
  The monitor polls a weather service, compares the reported temperature with a threshold
  and sends debounced notifications. Python's numbers (the clock \<open>time.time()\<close>, the
  temperature, the threshold) are modelled as rationals, Python's unbounded integers
  (\<open>self.count\<close>, \<open>self.slo\<close>, \<open>self.semaphores\<close>) as \<open>int\<close>. Log output
  (\<open>self.msg\<close>) is not part of the model; a call of \<open>self.notify\<close> is an element of
  the list of notifications that an operation returns.
\<close>

text \<open>The value that \<open>r.json()\<close> returns: a decoded JSON document.\<close>

datatype json =
    JNull
  | JBool bool
  | JNum rat
  | JStr string
  | JArr "json list"
  | JObj "(string \<times> json) list"

text \<open>
  The exceptions the modelled code can raise: the HTTP client fails (\<open>NetworkError\<close>,
  \<open>TimeoutError\<close>), the body is not JSON, a key is missing, or a value has the wrong type.
\<close>

datatype error =
    NetworkError
  | TimeoutError
  | JSONDecodeError
  | KeyError string
  | TypeError

text \<open>
  What one HTTP call gives: an exception raised by the client, or a response with its
  status code and its body (\<open>None\<close> when the body does not decode as JSON).
\<close>

datatype response =
    Raised error
  | Reply int "json option"

datatype severity = Breach | Clear

text \<open>The local variables of one \<open>get_nonblocking_weather\<close> coroutine.\<close>

record task =
  start :: rat
  warning :: bool
  clearing :: bool
  fired :: bool

text \<open>The fields of \<open>MonitorDCTemp\<close> that the monitoring logic reads or writes.\<close>

record monitor =
  threshold :: rat
  slo :: int
  semaphores :: int
  lon :: json
  lat :: json
  count :: int

text \<open>\<open>__init__\<close> with no environment variable set.\<close>

definition init_monitor :: monitor where
  "init_monitor =
     \<lparr>threshold = 90, slo = 300, semaphores = 2,
      lon = JNum (- 738961 / 10000), lat = JNum (407036 / 10000), count = 0\<rparr>"

text \<open>The locals of \<open>get_nonblocking_weather\<close> before its loop, entered at time \<open>t0\<close>.\<close>

definition init_task :: "rat \<Rightarrow> task" where
  "init_task t0 = \<lparr>start = t0, warning = False, clearing = False, fired = False\<rparr>"

section \<open>Operations\<close>

text \<open>
  \<open>d[k]\<close> on a decoded JSON value: a dictionary raises \<open>KeyError\<close> for a missing key (a
  repeated key keeps its last value), every other value raises \<open>TypeError\<close> for a string
  subscript.
\<close>

fun subscript :: "json \<Rightarrow> string \<Rightarrow> error + json" where
  "subscript (JObj kvs) k =
     (case map_of (rev kvs) k of None \<Rightarrow> Inl (KeyError k) | Some v \<Rightarrow> Inr v)"
| "subscript _ k = Inl TypeError"

text \<open>
  \<open>current_temp > self.threshold\<close>: numbers compare, booleans compare as 0 and 1, and every
  other value raises \<open>TypeError\<close>.
\<close>

fun greater_than :: "json \<Rightarrow> rat \<Rightarrow> error + bool" where
  "greater_than (JNum x) th = Inr (x > th)"
| "greater_than (JBool b) th = Inr ((if b then 1 else 0) > th)"
| "greater_than _ th = Inl TypeError"

text \<open>\<open>counter\<close> (lines 186-190).\<close>

definition counter :: "bool \<Rightarrow> monitor \<Rightarrow> monitor" where
  "counter subtract self =
     (if \<not> subtract then self\<lparr>count := count self + 1\<rparr>
      else if count self > 0 then self\<lparr>count := count self - 1\<rparr>
      else self)"

text \<open>
  The right-hand side of the count comparison on lines 245 and 271:
  \<open>(self.semaphores * (self.slo / 10)) - 1\<close>, with Python's true division.
\<close>

definition density_floor :: "monitor \<Rightarrow> rat" where
  "density_floor self = (of_int (semaphores self) * (of_int (slo self) / 10)) - 1"

text \<open>
  Lines 230-284 of \<open>get_nonblocking_weather\<close>: the threshold check on a sample whose
  comparison with the threshold gave \<open>breaching\<close>, read at clock time \<open>now\<close>. The result is
  the coroutine's locals, the monitor and the notifications sent.
\<close>

definition evaluate :: "rat \<Rightarrow> bool \<Rightarrow> task \<times> monitor \<Rightarrow> task \<times> monitor \<times> severity list" where
  "evaluate now breaching tm =
     (case tm of (t, self0) \<Rightarrow>
        let self = counter False self0 in
        if breaching then
          (if \<not> warning t then
             (t\<lparr>warning := True, clearing := False, start := now\<rparr>, self\<lparr>count := 1\<rparr>, [])
           else if warning t \<and> now - start t > of_int (slo self)
                   \<and> of_int (count self) > density_floor self then
             (t\<lparr>fired := True, warning := False\<rparr>, self\<lparr>count := 0\<rparr>, [Breach])
           else (t, self, []))
        else
          (if warning t \<and> \<not> clearing t then
             (t\<lparr>warning := False, clearing := True, start := now\<rparr>, self\<lparr>count := 1\<rparr>, [])
           else if clearing t \<and> now - start t > of_int (slo self)
                   \<and> of_int (count self) > density_floor self then
             (if fired t then (t\<lparr>fired := False, clearing := False\<rparr>, self\<lparr>count := 0\<rparr>, [Clear])
              else (t\<lparr>clearing := False\<rparr>, self\<lparr>count := 0\<rparr>, []))
           else if \<not> fired t \<and> \<not> clearing t then (t, self\<lparr>count := 0\<rparr>, [])
           else (t, self, [])))"

text \<open>
  One pass through the body of the \<open>while True\<close> loop (lines 205-287) for the result \<open>r\<close>
  of \<open>client.get\<close>, with the clock at \<open>now\<close>. Nothing in the loop catches an exception, so
  an exception raised by the call, by \<open>r.json()\<close>, by a subscript or by the comparison leaves
  the coroutine: that is the result \<open>Inl\<close>.
\<close>

definition iteration ::
  "rat \<Rightarrow> response \<Rightarrow> task \<times> monitor \<Rightarrow> error + (task \<times> monitor \<times> severity list)" where
  "iteration now r tm =
     (case r of
        Raised e \<Rightarrow> Inl e
      | Reply status_code body \<Rightarrow>
          if status_code = 200 then
            (case body of
               None \<Rightarrow> Inl JSONDecodeError
             | Some j \<Rightarrow>
                 (case subscript j ''main'' of
                    Inl e \<Rightarrow> Inl e
                  | Inr m \<Rightarrow>
                      (case subscript m ''temp'' of
                         Inl e \<Rightarrow> Inl e
                       | Inr current_temp \<Rightarrow>
                           (case subscript j ''name'' of
                              Inl e \<Rightarrow> Inl e
                            | Inr location_name \<Rightarrow>
                                (case greater_than current_temp (threshold (snd tm)) of
                                   Inl e \<Rightarrow> Inl e
                                 | Inr breaching \<Rightarrow> Inr (evaluate now breaching tm))))))
          else Inr (fst tm, snd tm, []))"

text \<open>
  The \<open>while True\<close> loop of \<open>get_nonblocking_weather\<close> run on the results of its first
  calls, each with the clock time at which it is evaluated. The loop has no exit of its
  own; it ends only when an exception leaves it, and then the remaining results are never
  requested. The result is the state reached, the notifications sent in order, and the
  exception that ended the loop, if any.
\<close>

fun get_nonblocking_weather ::
  "(rat \<times> response) list \<Rightarrow> task \<times> monitor \<Rightarrow> (task \<times> monitor) \<times> severity list \<times> error option" where
  "get_nonblocking_weather [] tm = (tm, [], None)"
| "get_nonblocking_weather ((now, r) # rs) tm =
     (case iteration now r tm of
        Inl e \<Rightarrow> (tm, [], Some e)
      | Inr (t', self', ns) \<Rightarrow>
          (case get_nonblocking_weather rs (t', self') of
             (tm'', ns', err) \<Rightarrow> (tm'', ns @ ns', err)))"

text \<open>
  \<open>set_location\<close> (lines 133-152). \<open>requests_get\<close> stands for the geocoding service: the
  result of the HTTP call for a zip code. The bare \<open>except\<close> catches every exception, and
  the tuple on the right of the assignment is built before either field is written.
\<close>

definition set_location :: "('z \<Rightarrow> response) \<Rightarrow> 'z \<Rightarrow> monitor \<Rightarrow> monitor \<times> bool" where
  "set_location requests_get zipcode self =
     (case requests_get zipcode of
        Raised e \<Rightarrow> (self, False)
      | Reply status_code body \<Rightarrow>
          if status_code \<noteq> 200 then (self, False)
          else
            (case body of
               None \<Rightarrow> (self, False)
             | Some j \<Rightarrow>
                 (case subscript j ''lat'' of
                    Inl e \<Rightarrow> (self, False)
                  | Inr la \<Rightarrow>
                      (case subscript j ''lon'' of
                         Inl e \<Rightarrow> (self, False)
                       | Inr lo \<Rightarrow> (self\<lparr>lat := la, lon := lo\<rparr>, True)))))"

text \<open>
  \<open>get_blocking_weather\<close> (lines 154-184), the one-shot sibling of the loop: the call and
  the parsing are inside \<open>try\<close>, the comparison is not.
\<close>

definition get_blocking_weather :: "response \<Rightarrow> monitor \<Rightarrow> error + (bool \<times> severity list)" where
  "get_blocking_weather temperature self =
     (case temperature of
        Raised e \<Rightarrow> Inr (False, [])
      | Reply status_code body \<Rightarrow>
          if status_code \<noteq> 200 then Inr (False, [])
          else
            (case body of
               None \<Rightarrow> Inr (False, [])
             | Some j \<Rightarrow>
                 (case subscript j ''main'' of
                    Inl e \<Rightarrow> Inr (False, [])
                  | Inr m \<Rightarrow>
                      (case subscript m ''temp'' of
                         Inl e \<Rightarrow> Inr (False, [])
                       | Inr current_temp \<Rightarrow>
                           (case subscript j ''name'' of
                              Inl e \<Rightarrow> Inr (False, [])
                            | Inr location_name \<Rightarrow>
                                (case greater_than current_temp (threshold self) of
                                   Inl e \<Rightarrow> Inl e
                                 | Inr b \<Rightarrow> Inr (True, (if b then [Breach] else []))))))))"

section \<open>The polling tasks and their semaphore\<close>

text \<open>
  \<open>parse_cmdline --forever\<close> creates one \<open>asyncio.Semaphore(mon.semaphores)\<close> and
  \<open>mon.semaphores\<close> tasks that run \<open>get_nonblocking_weather\<close> on one event loop. A task is
  suspended only where it awaits: at \<open>async with semaphore\<close> while no permit is free, at
  \<open>client.get\<close>, and at \<open>asyncio.sleep(10)\<close>. Between these points it runs alone, so the
  tasks are modelled as an interleaving of the steps below.
\<close>

text \<open>
  Where a task is: before \<open>async with semaphore\<close> (\<open>Waiting\<close>), inside \<open>client.get\<close>
  holding a permit (\<open>Calling\<close>), inside \<open>asyncio.sleep(10)\<close> holding a permit and the
  response (\<open>Cooldown\<close>), or ended by an exception (\<open>Stopped\<close>).
\<close>

datatype point = Waiting | Calling | Cooldown response | Stopped error

record worker =
  locals :: task
  pc :: point

text \<open>
  The tasks, the semaphore's internal counter of free permits, and the shared monitor
  object.
\<close>

record system =
  workers :: "worker list"
  permits :: int
  mon :: monitor

text \<open>
  A step of task \<open>num\<close>: it takes a permit and sends its request; its request completes
  with a result at some clock time; its sleep ends at some clock time.
\<close>

datatype event = Acquire nat | Complete nat response rat | Wake nat rat

text \<open>
  The rest of the loop body after the sleep (lines 219-287) and the end of
  \<open>async with\<close>, which returns the permit whether or not an exception is leaving.
\<close>

definition finish :: "nat \<Rightarrow> response \<Rightarrow> rat \<Rightarrow> system \<Rightarrow> system \<times> severity list" where
  "finish num r now s =
     (let w = workers s ! num in
      case iteration now r (locals w, mon s) of
        Inl e \<Rightarrow>
          (s\<lparr>workers := (workers s)[num := w\<lparr>pc := Stopped e\<rparr>], permits := permits s + 1\<rparr>, [])
      | Inr (t', self', ns) \<Rightarrow>
          (s\<lparr>workers := (workers s)[num := \<lparr>locals = t', pc = Waiting\<rparr>],
             permits := permits s + 1, mon := self'\<rparr>, ns))"

text \<open>
  One step of the interleaving; \<open>None\<close> when the task cannot take that step in that state.
  \<open>semaphore.locked()\<close> is true when no permit is free.
\<close>

fun step :: "event \<Rightarrow> system \<Rightarrow> (system \<times> severity list) option" where
  "step (Acquire num) s =
     (if num < length (workers s) \<and> pc (workers s ! num) = Waiting \<and> permits s > 0 then
        Some (s\<lparr>workers := (workers s)[num := (workers s ! num)\<lparr>pc := Calling\<rparr>],
                permits := permits s - 1\<rparr>, [])
      else None)"
| "step (Complete num r now) s =
     (if num < length (workers s) \<and> pc (workers s ! num) = Calling then
        (case r of
           Raised e \<Rightarrow> Some (finish num r now s)
         | Reply status_code body \<Rightarrow>
             if permits s = 0 then
               Some (s\<lparr>workers := (workers s)[num := (workers s ! num)\<lparr>pc := Cooldown r\<rparr>]\<rparr>, [])
             else Some (finish num r now s))
      else None)"
| "step (Wake num now) s =
     (if num < length (workers s) then
        (case pc (workers s ! num) of
           Cooldown r \<Rightarrow> Some (finish num r now s)
         | _ \<Rightarrow> None)
      else None)"

text \<open>A schedule: the steps in the order the event loop runs them.\<close>

fun run :: "event list \<Rightarrow> system \<Rightarrow> (system \<times> severity list) option" where
  "run [] s = Some (s, [])"
| "run (ev # evs) s =
     (case step ev s of
        None \<Rightarrow> None
      | Some (s', ns) \<Rightarrow>
          (case run evs s' of
             None \<Rightarrow> None
           | Some (s'', ns') \<Rightarrow> Some (s'', ns @ ns')))"

text \<open>
  The \<open>--forever\<close> branch of \<open>parse_cmdline\<close> (lines 343-347): \<open>asyncio.Semaphore\<close> raises
  \<open>ValueError\<close> for a negative value, \<open>range(mon.semaphores)\<close> gives the task numbers, and
  task \<open>num\<close> reads the clock into \<open>start\<close> at \<open>t0 num\<close>.
\<close>

definition forever :: "(nat \<Rightarrow> rat) \<Rightarrow> monitor \<Rightarrow> system option" where
  "forever t0 self =
     (if semaphores self < 0 then None
      else Some \<lparr>workers = map (\<lambda>num. \<lparr>locals = init_task (t0 num), pc = Waiting\<rparr>)
                                [0 ..< nat (semaphores self)],
                 permits = semaphores self, mon = self\<rparr>)"

text \<open>The number of requests to the weather service that are outstanding.\<close>

definition outstanding :: "system \<Rightarrow> nat" where
  "outstanding s = length (filter (\<lambda>w. pc w = Calling) (workers s))"

section \<open>Vocabulary of the specification\<close>

text \<open>
  The response of the weather service for a well-formed sample: status 200 and a body
  with the temperature under \<open>main.temp\<close> and the location under \<open>name\<close>.
\<close>

definition sample :: "rat \<Rightarrow> json \<Rightarrow> response" where
  "sample current_temp location_name =
     Reply 200 (Some (JObj [(''main'', JObj [(''temp'', JNum current_temp)]),
                            (''name'', location_name)]))"

text \<open>
  The phase of a tracker, read from the flags \<open>warning\<close> and \<open>clearing\<close>; \<open>fired\<close> is the
  specification's \<open>alertActive\<close>, \<open>start\<close> its \<open>windowStart\<close> and \<open>self.count\<close> its
  \<open>breachCount\<close>.
\<close>

datatype phase = Nominal | Warning | Clearing

definition phase :: "task \<Rightarrow> phase" where
  "phase t = (if warning t then Warning else if clearing t then Clearing else Nominal)"

text \<open>A task holds a permit from \<open>async with semaphore\<close> until the end of the block.\<close>

definition holding :: "worker \<Rightarrow> bool" where
  "holding w = (case pc w of Calling \<Rightarrow> True | Cooldown r \<Rightarrow> True | _ \<Rightarrow> False)"

definition holders :: "system \<Rightarrow> nat" where
  "holders s = length (filter holding (workers s))"

section \<open>Basic facts\<close>

lemma iteration_sample:
  "iteration now (sample v nm) (t, self) = Inr (evaluate now (v > threshold self) (t, self))"
  by (simp add: iteration_def sample_def)

text \<open>The two flags are never set together.\<close>

lemma evaluate_flags:
  "\<not> (warning t \<and> clearing t) \<Longrightarrow>
   \<not> (warning (fst (evaluate now b (t, self))) \<and> clearing (fst (evaluate now b (t, self))))"
  by (simp add: evaluate_def Let_def)

lemma iteration_error_stops:
  "iteration now r tm = Inl e \<Longrightarrow> get_nonblocking_weather ((now, r) # rs) tm = (tm, [], Some e)"
  by simp

section \<open>The shared counter\<close>

lemma counter_nonneg: "0 \<le> count self \<Longrightarrow> 0 \<le> count (counter subtract self)"
  by (simp add: counter_def)

lemma evaluate_nonneg:
  "0 \<le> count self \<Longrightarrow> 0 \<le> count (fst (snd (evaluate now b (t, self))))"
  by (simp add: evaluate_def counter_def Let_def)

lemma iteration_nonneg:
  assumes c: "0 \<le> count self" and it: "iteration now r (t, self) = Inr (t', self', ns)"
  shows "0 \<le> count self'"
proof -
  from it consider "self' = self" | b where "evaluate now b (t, self) = (t', self', ns)"
    by (auto simp: iteration_def split: response.splits if_splits option.splits sum.splits)
  then show ?thesis
  proof cases
    case 1
    with c show ?thesis by simp
  next
    case 2
    with evaluate_nonneg[OF c, of now b t] show ?thesis by simp
  qed
qed

lemma finish_nonneg:
  "0 \<le> count (mon s) \<Longrightarrow> 0 \<le> count (mon (fst (finish num r now s)))"
  using iteration_nonneg[of "mon s" now r "locals (workers s ! num)"]
  by (auto simp: finish_def Let_def split: sum.splits prod.splits)

lemma step_nonneg:
  "0 \<le> count (mon s) \<Longrightarrow> step ev s = Some (s', ns) \<Longrightarrow> 0 \<le> count (mon s')"
  using finish_nonneg[of s]
  by (cases ev) (auto split: if_splits response.splits point.splits simp: prod_eq_iff)

lemma run_nonneg:
  "0 \<le> count (mon s) \<Longrightarrow> run evs s = Some (s', ns) \<Longrightarrow> 0 \<le> count (mon s')"
proof (induction evs arbitrary: s ns)
  case Nil
  then show ?case by simp
next
  case (Cons ev evs)
  then show ?case
    by (auto split: option.splits prod.splits dest: step_nonneg)
qed

text \<open>
  Claim C10. \<open>self.count\<close> is never negative. From a monitor whose count is not negative,
  \<open>counter\<close> in either mode, the threshold check, a pass through the loop body that raises
  no exception, and every schedule of the polling tasks leave a count that is not
  negative. The count of a new monitor is 0 (\<open>init_monitor\<close>, used in the example below).
\<close>

theorem count_never_negative:
  assumes "0 \<le> count self"
  shows "0 \<le> count (counter subtract self)
       \<and> 0 \<le> count (fst (snd (evaluate now breaching (t, self))))
       \<and> (\<forall>t' self' ns. iteration now r (t, self) = Inr (t', self', ns) \<longrightarrow> 0 \<le> count self')
       \<and> (\<forall>s s' ns. mon s = self \<and> run evs s = Some (s', ns) \<longrightarrow> 0 \<le> count (mon s'))"
  using assms counter_nonneg evaluate_nonneg iteration_nonneg run_nonneg by blast

text \<open>
  The example: a new monitor, \<open>counter(subtract=True)\<close> at count 0, and the schedule in
  which task 0 takes a permit and receives a sample of 95 degrees at time 5.
\<close>

theorem count_never_negative_witness:
  "0 \<le> count init_monitor
   \<and> count (counter True init_monitor) = 0
   \<and> count (fst (snd (evaluate 5 True (init_task 0, init_monitor)))) = 1
   \<and> iteration 5 (sample 95 (JStr ''Ridgewood'')) (init_task 0, init_monitor)
       = Inr (\<lparr>start = 5, warning = True, clearing = False, fired = False\<rparr>,
              init_monitor\<lparr>count := 1\<rparr>, [])
   \<and> run [Acquire 0, Complete 0 (sample 95 (JStr ''Ridgewood'')) 5]
        \<lparr>workers = [\<lparr>locals = init_task 0, pc = Waiting\<rparr>, \<lparr>locals = init_task 0, pc = Waiting\<rparr>],
         permits = 2, mon = init_monitor\<rparr>
       = Some (\<lparr>workers = [\<lparr>locals = \<lparr>start = 5, warning = True, clearing = False, fired = False\<rparr>,
                            pc = Waiting\<rparr>,
                           \<lparr>locals = init_task 0, pc = Waiting\<rparr>],
                permits = 2, mon = init_monitor\<lparr>count := 1\<rparr>\<rparr>, [])
   \<and> 0 \<le> count (mon \<lparr>workers = [\<lparr>locals = \<lparr>start = 5, warning = True, clearing = False, fired = False\<rparr>,
                            pc = Waiting\<rparr>,
                           \<lparr>locals = init_task 0, pc = Waiting\<rparr>],
                permits = 2, mon = init_monitor\<lparr>count := 1\<rparr>\<rparr>)"
proof -
  have c0: "0 \<le> count init_monitor"
    by (simp add: init_monitor_def)
  have it: "iteration 5 (sample 95 (JStr ''Ridgewood'')) (init_task 0, init_monitor)
       = Inr (\<lparr>start = 5, warning = True, clearing = False, fired = False\<rparr>,
              init_monitor\<lparr>count := 1\<rparr>, [])"
    by (simp add: iteration_sample evaluate_def counter_def Let_def init_monitor_def init_task_def)
  have rn: "run [Acquire 0, Complete 0 (sample 95 (JStr ''Ridgewood'')) 5]
        \<lparr>workers = [\<lparr>locals = init_task 0, pc = Waiting\<rparr>, \<lparr>locals = init_task 0, pc = Waiting\<rparr>],
         permits = 2, mon = init_monitor\<rparr>
       = Some (\<lparr>workers = [\<lparr>locals = \<lparr>start = 5, warning = True, clearing = False, fired = False\<rparr>,
                            pc = Waiting\<rparr>,
                           \<lparr>locals = init_task 0, pc = Waiting\<rparr>],
                permits = 2, mon = init_monitor\<lparr>count := 1\<rparr>\<rparr>, [])"
    by (simp add: sample_def finish_def it [unfolded sample_def])
  have ev: "count (fst (snd (evaluate 5 True (init_task 0, init_monitor)))) = 1"
    by (simp add: evaluate_def counter_def Let_def init_task_def)
  have ct: "count (counter True init_monitor) = 0"
    by (simp add: counter_def init_monitor_def)
  from count_never_negative [OF c0, of True 5 True "init_task 0" "sample 95 (JStr ''Ridgewood'')"
      "[Acquire 0, Complete 0 (sample 95 (JStr ''Ridgewood'')) 5]"] c0 it rn ev ct
  show ?thesis by simp
qed

section \<open>The threshold check\<close>






text \<open>
  Claim C5. In Warning (the clearing flag is then not set, see \<open>evaluate_flags\<close>) a
  clear-classified sample at \<open>now1\<close> moves the tracker to Clearing with \<open>start = now1\<close> and
  count 1. A breaching sample at \<open>now2\<close> then returns it to Warning with \<open>start = now2\<close>
  and count 1, whatever the time \<open>now2\<close> and whatever the shared count \<open>c\<close> has become in
  between: the result does not mention \<open>now1\<close>, and it is the state that entering Warning
  from Nominal at \<open>now2\<close> gives.
\<close>

theorem transient_dip:
  assumes "phase t = Warning" and "\<not> clearing t"
    and "temp1 \<le> threshold self" and "temp2 > threshold self"
  shows "evaluate now1 (temp1 > threshold self) (t, self)
           = (t\<lparr>warning := False, clearing := True, start := now1\<rparr>, self\<lparr>count := 1\<rparr>, [])
       \<and> phase (t\<lparr>warning := False, clearing := True, start := now1\<rparr>) = Clearing
       \<and> evaluate now2 (temp2 > threshold self)
            (t\<lparr>warning := False, clearing := True, start := now1\<rparr>, self\<lparr>count := c\<rparr>)
           = (t\<lparr>warning := True, clearing := False, start := now2\<rparr>, self\<lparr>count := 1\<rparr>, [])
       \<and> phase (t\<lparr>warning := True, clearing := False, start := now2\<rparr>) = Warning
       \<and> evaluate now2 (temp2 > threshold self)
            (t\<lparr>warning := False, clearing := False\<rparr>, self\<lparr>count := c\<rparr>)
           = (t\<lparr>warning := True, clearing := False, start := now2\<rparr>, self\<lparr>count := 1\<rparr>, [])"
  using assms
  by (simp add: evaluate_def counter_def Let_def phase_def split: if_splits)

text \<open>
  The example: the default monitor in Warning since time 0 with 20 samples counted, a
  sample of 80 degrees at time 100 and one of 95 degrees at time 110.
\<close>

theorem transient_dip_witness:
  "phase \<lparr>start = 0, warning = True, clearing = False, fired = False\<rparr> = Warning
   \<and> \<not> clearing \<lparr>start = 0, warning = True, clearing = False, fired = False\<rparr>
   \<and> (80::rat) \<le> threshold (init_monitor\<lparr>count := 20\<rparr>)
   \<and> (95::rat) > threshold (init_monitor\<lparr>count := 20\<rparr>)
   \<and> evaluate 100 (80 > threshold (init_monitor\<lparr>count := 20\<rparr>))
        (\<lparr>start = 0, warning = True, clearing = False, fired = False\<rparr>, init_monitor\<lparr>count := 20\<rparr>)
      = (\<lparr>start = 100, warning = False, clearing = True, fired = False\<rparr>, init_monitor\<lparr>count := 1\<rparr>, [])
   \<and> evaluate 110 (95 > threshold (init_monitor\<lparr>count := 20\<rparr>))
        (\<lparr>start = 100, warning = False, clearing = True, fired = False\<rparr>, init_monitor\<lparr>count := 1\<rparr>)
      = (\<lparr>start = 110, warning = True, clearing = False, fired = False\<rparr>, init_monitor\<lparr>count := 1\<rparr>, [])"
  using transient_dip [of "\<lparr>start = 0, warning = True, clearing = False, fired = False\<rparr>"
      80 "init_monitor\<lparr>count := 20\<rparr>" 95 100 110 1]
  by (simp add: phase_def init_monitor_def)

section \<open>The polling loop\<close>

lemma evaluate_clear_nominal:
  "count self = 0 \<Longrightarrow> phase t = Nominal \<Longrightarrow> \<not> fired t \<Longrightarrow>
   evaluate now False (t, self) = (t, self, [])"
  by (simp add: evaluate_def counter_def Let_def phase_def split: if_splits)

lemma loop_clear_nominal:
  "\<forall>(now, temp, nm) \<in> set samples. temp \<le> threshold self \<Longrightarrow> count self = 0 \<Longrightarrow>
   phase t = Nominal \<Longrightarrow> \<not> fired t \<Longrightarrow>
   get_nonblocking_weather (map (\<lambda>(now, temp, nm). (now, sample temp nm)) samples) (t, self)
     = ((t, self), [], None)"
proof (induction samples)
  case Nil
  then show ?case by simp
next
  case (Cons x xs)
  obtain now temp nm where x: "x = (now, temp, nm)" by (cases x)
  with Cons show ?case
    by (simp add: iteration_sample evaluate_clear_nominal)
qed

text \<open>
  Claim C3. From the initial state (the locals of a new coroutine, count 0), after any
  number \<open>n\<close> of samples of a sequence whose values are all at or below the threshold, the
  loop has sent no notification, has raised nothing, and is in its initial state again:
  both flags false (Nominal), \<open>fired\<close> false and the count 0.
\<close>

theorem hysteresis:
  assumes "\<forall>(now, temp, nm) \<in> set samples. temp \<le> threshold self" and "count self = 0"
  shows "get_nonblocking_weather
           (map (\<lambda>(now, temp, nm). (now, sample temp nm)) (take n samples)) (init_task t0, self)
         = ((init_task t0, self), [], None)
       \<and> phase (init_task t0) = Nominal"
proof -
  have "\<forall>(now, temp, nm) \<in> set (take n samples). temp \<le> threshold self"
    using assms(1) by (meson in_set_takeD)
  moreover have "phase (init_task t0) = Nominal" "\<not> fired (init_task t0)"
    by (simp_all add: phase_def init_task_def)
  ultimately show ?thesis
    using assms(2) loop_clear_nominal by blast
qed

text \<open>The example: samples of 70 and of exactly 90 degrees on the default monitor.\<close>

theorem hysteresis_witness:
  "(70::rat) \<le> threshold init_monitor \<and> (90::rat) \<le> threshold init_monitor
   \<and> count init_monitor = 0
   \<and> get_nonblocking_weather
        [(0, sample 70 (JStr ''Ridgewood'')), (10, sample 90 (JStr ''Ridgewood''))]
        (init_task 0, init_monitor)
      = ((init_task 0, init_monitor), [], None)
   \<and> phase (init_task 0) = Nominal"
  using hysteresis [of "[(0, 70, JStr ''Ridgewood''), (10, 90, JStr ''Ridgewood'')]" init_monitor 2 0]
  by (simp add: init_monitor_def)

text \<open>
  After a breach notification the warning flag is cleared while \<open>fired\<close> is set. In that
  state a run of clear-classified samples changes nothing but the count: the test on line
  263 needs \<open>warning\<close>, the test on line 270 needs \<open>clearing\<close>, and the test on line 283
  needs \<open>fired\<close> to be false.
\<close>

lemma clear_samples_after_breach:
  "\<forall>(now, temp, nm) \<in> set samples. temp \<le> threshold self \<Longrightarrow>
   \<not> warning t \<Longrightarrow> \<not> clearing t \<Longrightarrow> fired t \<Longrightarrow>
   get_nonblocking_weather (map (\<lambda>(now, temp, nm). (now, sample temp nm)) samples) (t, self)
     = ((t, self\<lparr>count := count self + int (length samples)\<rparr>), [], None)"
proof (induction samples arbitrary: self)
  case Nil
  then show ?case by simp
next
  case (Cons x xs)
  obtain now temp nm where x: "x = (now, temp, nm)" by (cases x)
  from Cons.prems x have ev: "evaluate now (temp > threshold self) (t, self)
      = (t, self\<lparr>count := count self + 1\<rparr>, [])"
    by (simp add: evaluate_def counter_def Let_def)
  have "\<forall>(now, temp, nm) \<in> set xs. temp \<le> threshold (self\<lparr>count := count self + 1\<rparr>)"
    using Cons.prems(1) by simp
  from Cons.IH[OF this Cons.prems(2,3,4)] x ev show ?case
    by (simp add: iteration_sample add.assoc)
qed

text \<open>
  What the loop does once it is in Clearing with \<open>fired\<close> set: a clear-classified sample
  that completes the window sends one clear notification, clears \<open>fired\<close> and resets the
  tracker to Nominal with count 0.
\<close>

lemma clear_notification_when_fired:
  assumes "phase t = Clearing" and "fired t" and "temp \<le> threshold self"
    and "now - start t > of_int (slo self)" and "of_int (count self + 1) > density_floor self"
  shows "evaluate now (temp > threshold self) (t, self)
           = (t\<lparr>fired := False, clearing := False\<rparr>, self\<lparr>count := 0\<rparr>, [Clear])"
  using assms
  by (simp add: evaluate_def counter_def Let_def phase_def density_floor_def split: if_splits)

text \<open>
  Claim C2 (the code differs). With \<open>self.slo = 10\<close> and one task the floor is 0. Samples
  of 95 degrees at times 0 and 11 send the breach notification; samples of 80 degrees at
  times 12, 30 and 50 follow. The claim has the tracker enter Clearing at time 12 and send
  a clear notification at time 30; the loop sends only the breach notification and ends
  with both flags false and \<open>fired\<close> still set.
\<close>

theorem no_clear_after_breach:
  "get_nonblocking_weather
     [(0, sample 95 (JStr ''Ridgewood'')), (11, sample 95 (JStr ''Ridgewood'')),
      (12, sample 80 (JStr ''Ridgewood'')), (30, sample 80 (JStr ''Ridgewood'')),
      (50, sample 80 (JStr ''Ridgewood''))]
     (init_task 0, init_monitor\<lparr>slo := 10, semaphores := 1\<rparr>)
   = ((\<lparr>start = 0, warning = False, clearing = False, fired = True\<rparr>,
       init_monitor\<lparr>slo := 10, semaphores := 1, count := 3\<rparr>), [Breach], None)"
  by (simp add: iteration_sample evaluate_def counter_def Let_def density_floor_def
      init_task_def init_monitor_def)

text \<open>
  Claim C6 (the code differs). A response with status 200 whose body has no \<open>main\<close> entry
  raises \<open>KeyError\<close> on line 220. The state is as it was, but the exception ends the loop:
  the sample of 95 degrees that the service would give next is never requested. The
  one-shot \<open>get_blocking_weather\<close> catches the same exception and returns \<open>False\<close>.
\<close>

theorem missing_field_ends_loop:
  "get_nonblocking_weather
     [(0, Reply 200 (Some (JObj [(''name'', JStr ''Ridgewood'')]))),
      (10, sample 95 (JStr ''Ridgewood''))]
     (init_task 0, init_monitor)
   = ((init_task 0, init_monitor), [], Some (KeyError ''main''))
   \<and> get_nonblocking_weather [(10, sample 95 (JStr ''Ridgewood''))] (init_task 0, init_monitor)
   = ((\<lparr>start = 10, warning = True, clearing = False, fired = False\<rparr>,
       init_monitor\<lparr>count := 1\<rparr>), [], None)
   \<and> get_blocking_weather (Reply 200 (Some (JObj [(''name'', JStr ''Ridgewood'')]))) init_monitor
   = Inr (False, [])"
  by (simp add: iteration_def sample_def evaluate_def counter_def Let_def get_blocking_weather_def
      init_task_def init_monitor_def)

text \<open>
  Claim C7 (the code differs). A response with a status other than 200 is skipped and the
  loop goes on to the next sample. An exception raised by \<open>client.get\<close> (here a timeout)
  is not caught: it ends the loop, and the next sample is never requested. The one-shot
  \<open>get_blocking_weather\<close> catches the same exception and returns \<open>False\<close>.
\<close>

theorem timeout_ends_loop:
  "get_nonblocking_weather
     [(0, Reply 500 None), (10, sample 95 (JStr ''Ridgewood''))] (init_task 0, init_monitor)
   = ((\<lparr>start = 10, warning = True, clearing = False, fired = False\<rparr>,
       init_monitor\<lparr>count := 1\<rparr>), [], None)
   \<and> get_nonblocking_weather
     [(0, Raised TimeoutError), (10, sample 95 (JStr ''Ridgewood''))] (init_task 0, init_monitor)
   = ((init_task 0, init_monitor), [], Some TimeoutError)
   \<and> get_blocking_weather (Raised TimeoutError) init_monitor = Inr (False, [])"
  by (simp add: iteration_def sample_def evaluate_def counter_def Let_def get_blocking_weather_def
      init_task_def init_monitor_def)

section \<open>The permits\<close>

lemma length_filter_update:
  "i < length xs \<Longrightarrow>
   int (length (filter P (xs[i := y])))
     = int (length (filter P xs)) - (if P (xs ! i) then 1 else 0) + (if P y then 1 else 0)"
proof (induction xs arbitrary: i)
  case Nil
  then show ?case by simp
next
  case (Cons x xs)
  show ?case
  proof (cases i)
    case 0
    then show ?thesis by simp
  next
    case (Suc n)
    with Cons.prems have "n < length xs" by simp
    from Cons.IH[OF this] Suc show ?thesis by (auto split: if_splits)
  qed
qed

text \<open>Leaving \<open>async with\<close> gives the permit back, with or without an exception.\<close>

lemma finish_permits:
  assumes "num < length (workers s)" and "holding (workers s ! num)"
  shows "permits (fst (finish num r now s)) + int (holders (fst (finish num r now s)))
           = permits s + int (holders s)
       \<and> permits (fst (finish num r now s)) = permits s + 1"
proof (cases "iteration now r (locals (workers s ! num), mon s)")
  case (Inl e)
  then show ?thesis
    using assms by (simp add: finish_def Let_def holders_def length_filter_update holding_def)
next
  case (Inr x)
  then show ?thesis
    using assms
    by (cases x) (simp add: finish_def Let_def holders_def length_filter_update holding_def)
qed

text \<open>Free permits and permits held always add up to the same number.\<close>

lemma step_permits:
  assumes "step ev s = Some (s', ns)" and "0 \<le> permits s"
  shows "permits s' + int (holders s') = permits s + int (holders s) \<and> 0 \<le> permits s'"
proof (cases ev)
  case (Acquire num)
  with assms show ?thesis
    by (auto simp: holders_def length_filter_update holding_def split: if_splits)
next
  case (Complete num r now)
  with assms have n: "num < length (workers s)" and c: "pc (workers s ! num) = Calling"
    by (auto split: if_splits)
  then have h: "holding (workers s ! num)" by (simp add: holding_def)
  from Complete assms n c consider
      "s' = fst (finish num r now s)"
    | "s' = s\<lparr>workers := (workers s)[num := (workers s ! num)\<lparr>pc := Cooldown r\<rparr>]\<rparr>"
    by (auto split: if_splits response.splits)
  then show ?thesis
  proof cases
    case 1
    with finish_permits[OF n h, of r now] assms(2) show ?thesis by simp
  next
    case 2
    with n h assms(2) show ?thesis
      by (simp add: holders_def length_filter_update holding_def)
  qed
next
  case (Wake num now)
  with assms obtain r where n: "num < length (workers s)" and c: "pc (workers s ! num) = Cooldown r"
    and s': "s' = fst (finish num r now s)"
    by (auto split: if_splits point.splits)
  then have h: "holding (workers s ! num)" by (simp add: holding_def)
  from finish_permits[OF n h, of r now] s' assms(2) show ?thesis by simp
qed

lemma run_permits:
  "run evs s = Some (s', ns) \<Longrightarrow> 0 \<le> permits s \<Longrightarrow>
   permits s' + int (holders s') = permits s + int (holders s) \<and> 0 \<le> permits s'"
proof (induction evs arbitrary: s ns)
  case Nil
  then show ?case by simp
next
  case (Cons ev evs)
  from Cons.prems(1) obtain s1 ns1 ns2 where
    st: "step ev s = Some (s1, ns1)" and rn: "run evs s1 = Some (s', ns2)"
    by (auto split: option.splits prod.splits)
  from step_permits[OF st Cons.prems(2)] Cons.IH[OF rn] show ?case by simp
qed

lemma outstanding_le_holders: "outstanding s \<le> holders s"
proof -
  have "length (filter (\<lambda>w. pc w = Calling) ws) \<le> length (filter holding ws)" for ws
    by (induction ws) (auto simp: holding_def)
  then show ?thesis by (simp add: outstanding_def holders_def)
qed

lemma forever_holders:
  "forever t0 self = Some s0 \<Longrightarrow> holders s0 = 0 \<and> permits s0 = semaphores self \<and> 0 \<le> permits s0"
  by (auto simp: forever_def holders_def holding_def filter_empty_conv split: if_splits)

text \<open>
  The bound comes from the semaphore, not from the number of tasks: any number of tasks
  that start with no permit held never have more requests outstanding than the semaphore
  had permits.
\<close>

lemma semaphore_bound:
  assumes "holders s = 0" and "0 \<le> permits s" and "run evs s = Some (s', ns)"
  shows "int (outstanding s') \<le> permits s"
proof -
  from run_permits[OF assms(3,2)] assms(1)
  have "permits s' + int (holders s') = permits s" "0 \<le> permits s'" by simp_all
  with outstanding_le_holders[of s'] show ?thesis by simp
qed

text \<open>A task that an exception has ended takes no further step: it never polls again.\<close>

lemma stopped_task_takes_no_step:
  "num < length (workers s) \<Longrightarrow> pc (workers s ! num) = Stopped e \<Longrightarrow>
   step (Acquire num) s = None \<and> step (Complete num r now) s = None \<and> step (Wake num now) s = None"
  by simp

text \<open>
  Claim C8. In every state that the polling tasks started by \<open>--forever\<close> reach, under any
  schedule, the number of outstanding requests is at most \<open>self.semaphores\<close>: every task
  with an outstanding request holds a permit, the permits held and the free permits add
  up to \<open>self.semaphores\<close>, and the number of free permits is never negative.
\<close>

theorem permit_bound:
  assumes "forever t0 self = Some s0" and "run evs s0 = Some (s, ns)"
  shows "int (outstanding s) \<le> semaphores self
       \<and> outstanding s \<le> holders s
       \<and> permits s + int (holders s) = semaphores self
       \<and> 0 \<le> permits s"
proof -
  from forever_holders[OF assms(1)]
  have i: "holders s0 = 0" "permits s0 = semaphores self" "0 \<le> permits s0" by simp_all
  from run_permits[OF assms(2) i(3)] i
  have "permits s + int (holders s) = semaphores self" "0 \<le> permits s" by simp_all
  with outstanding_le_holders[of s] show ?thesis by simp
qed

text \<open>
  The example: the default monitor with its two tasks, both of which have taken a permit
  and sent a request. The bound is reached.
\<close>

theorem permit_bound_witness:
  "forever (\<lambda>num. 0) init_monitor
     = Some \<lparr>workers = [\<lparr>locals = init_task 0, pc = Waiting\<rparr>, \<lparr>locals = init_task 0, pc = Waiting\<rparr>],
             permits = 2, mon = init_monitor\<rparr>
   \<and> run [Acquire 0, Acquire 1]
        \<lparr>workers = [\<lparr>locals = init_task 0, pc = Waiting\<rparr>, \<lparr>locals = init_task 0, pc = Waiting\<rparr>],
         permits = 2, mon = init_monitor\<rparr>
     = Some (\<lparr>workers = [\<lparr>locals = init_task 0, pc = Calling\<rparr>, \<lparr>locals = init_task 0, pc = Calling\<rparr>],
              permits = 0, mon = init_monitor\<rparr>, [])
   \<and> outstanding \<lparr>workers = [\<lparr>locals = init_task 0, pc = Calling\<rparr>, \<lparr>locals = init_task 0, pc = Calling\<rparr>],
              permits = 0, mon = init_monitor\<rparr> = 2
   \<and> semaphores init_monitor = 2"
proof -
  have h1: "forever (\<lambda>num. 0) init_monitor
     = Some \<lparr>workers = [\<lparr>locals = init_task 0, pc = Waiting\<rparr>, \<lparr>locals = init_task 0, pc = Waiting\<rparr>],
             permits = 2, mon = init_monitor\<rparr>"
    by code_simp
  have h2: "run [Acquire 0, Acquire 1]
        \<lparr>workers = [\<lparr>locals = init_task 0, pc = Waiting\<rparr>, \<lparr>locals = init_task 0, pc = Waiting\<rparr>],
         permits = 2, mon = init_monitor\<rparr>
     = Some (\<lparr>workers = [\<lparr>locals = init_task 0, pc = Calling\<rparr>, \<lparr>locals = init_task 0, pc = Calling\<rparr>],
              permits = 0, mon = init_monitor\<rparr>, [])"
    by simp
  have h3: "outstanding \<lparr>workers = [\<lparr>locals = init_task 0, pc = Calling\<rparr>, \<lparr>locals = init_task 0, pc = Calling\<rparr>],
              permits = 0, mon = init_monitor\<rparr> = 2"
    by (simp add: outstanding_def)
  from permit_bound[OF h1 h2] h1 h2 h3 show ?thesis by (simp add: init_monitor_def)
qed

section \<open>Setting the location\<close>

text \<open>
  Claim C9. For every zip code: \<open>set_location\<close> returns \<open>False\<close> only with the monitor
  unchanged; it returns \<open>False\<close> with the monitor unchanged when the request raises, when
  the status is not 200, when the body does not decode, and when \<open>lat\<close> or \<open>lon\<close> cannot be
  read from the body; and when the status is 200 and the body has both, it returns \<open>True\<close>
  and \<open>self.lat\<close> and \<open>self.lon\<close> are the values of the response.
\<close>

theorem set_location_result:
  "(snd (set_location requests_get zipcode self) \<or> fst (set_location requests_get zipcode self) = self)
   \<and> (\<forall>e. requests_get zipcode = Raised e
          \<longrightarrow> set_location requests_get zipcode self = (self, False))
   \<and> (\<forall>status_code body. requests_get zipcode = Reply status_code body \<and> status_code \<noteq> 200
          \<longrightarrow> set_location requests_get zipcode self = (self, False))
   \<and> (\<forall>status_code. requests_get zipcode = Reply status_code None
          \<longrightarrow> set_location requests_get zipcode self = (self, False))
   \<and> (\<forall>status_code j e. requests_get zipcode = Reply status_code (Some j)
            \<and> (subscript j ''lat'' = Inl e \<or> subscript j ''lon'' = Inl e)
          \<longrightarrow> set_location requests_get zipcode self = (self, False))
   \<and> (\<forall>j la lo. requests_get zipcode = Reply 200 (Some j)
            \<and> subscript j ''lat'' = Inr la \<and> subscript j ''lon'' = Inr lo
          \<longrightarrow> set_location requests_get zipcode self = (self\<lparr>lat := la, lon := lo\<rparr>, True))"
  by (auto simp: set_location_def split: response.splits option.splits sum.splits)

text \<open>
  The examples, on the default monitor: a timeout, a 404 response, a body without \<open>lon\<close>,
  and a complete answer for the zip code 11385.
\<close>

theorem set_location_result_witness:
  "set_location (\<lambda>z::int. Raised TimeoutError) 11385 init_monitor = (init_monitor, False)
   \<and> set_location (\<lambda>z::int. Reply 404 (Some (JObj [(''cod'', JStr ''404'')]))) 0 init_monitor
       = (init_monitor, False)
   \<and> set_location (\<lambda>z::int. Reply 200 (Some (JObj [(''lat'', JNum 40)]))) 11385 init_monitor
       = (init_monitor, False)
   \<and> set_location (\<lambda>z::int. Reply 200 (Some (JObj [(''lat'', JNum 40), (''lon'', JNum (- 73))])))
        11385 init_monitor
       = (init_monitor\<lparr>lat := JNum 40, lon := JNum (- 73)\<rparr>, True)"
proof -
  have 1: "set_location (\<lambda>z::int. Raised TimeoutError) 11385 init_monitor = (init_monitor, False)"
    using set_location_result [of "\<lambda>z::int. Raised TimeoutError" 11385 init_monitor] by simp
  have 2: "set_location (\<lambda>z::int. Reply 404 (Some (JObj [(''cod'', JStr ''404'')]))) 0 init_monitor
       = (init_monitor, False)"
    using set_location_result
      [of "\<lambda>z::int. Reply 404 (Some (JObj [(''cod'', JStr ''404'')]))" 0 init_monitor] by simp
  have 3: "set_location (\<lambda>z::int. Reply 200 (Some (JObj [(''lat'', JNum 40)]))) 11385 init_monitor
       = (init_monitor, False)"
    using set_location_result
      [of "\<lambda>z::int. Reply 200 (Some (JObj [(''lat'', JNum 40)]))" 11385 init_monitor] by simp
  have 4: "set_location (\<lambda>z::int. Reply 200 (Some (JObj [(''lat'', JNum 40), (''lon'', JNum (- 73))])))
        11385 init_monitor
       = (init_monitor\<lparr>lat := JNum 40, lon := JNum (- 73)\<rparr>, True)"
    using set_location_result
      [of "\<lambda>z::int. Reply 200 (Some (JObj [(''lat'', JNum 40), (''lon'', JNum (- 73))]))"
          11385 init_monitor] by simp
  from 1 2 3 4 show ?thesis by simp
qed

end
